theory Spec2Isabelle
  imports Main "HOL-Library.AList"
begin

section \<open>Strings\<close>

text \<open>
  A JavaScript string is a sequence of UTF-16 code units. It is modelled as a
  \<^typ>\<open>string\<close>, each \<^typ>\<open>char\<close> standing for the code unit of the same number
  (U+0000 to U+00FF); strings with code units beyond U+00FF are outside the model.
\<close>

definition code :: "char \<Rightarrow> nat" where
  "code c = of_char c"

definition is_upper_az :: "char \<Rightarrow> bool" where
  "is_upper_az c \<longleftrightarrow> 65 \<le> code c \<and> code c \<le> 90"

definition is_lower_az :: "char \<Rightarrow> bool" where
  "is_lower_az c \<longleftrightarrow> 97 \<le> code c \<and> code c \<le> 122"

definition is_digit :: "char \<Rightarrow> bool" where
  "is_digit c \<longleftrightarrow> 48 \<le> code c \<and> code c \<le> 57"

definition is_alpha :: "char \<Rightarrow> bool" where
  "is_alpha c \<longleftrightarrow> is_upper_az c \<or> is_lower_az c"

text \<open>
  \<^verbatim>\<open>String.prototype.toLowerCase\<close> on one code unit below U+0100: the letters A to Z and
  the letters U+00C0 to U+00DE, the multiplication sign U+00D7 apart, move up by 32.
\<close>

definition lower_char :: "char \<Rightarrow> char" where
  "lower_char c =
     (if is_upper_az c \<or> (192 \<le> code c \<and> code c \<le> 222 \<and> code c \<noteq> 215)
      then char_of (code c + 32) else c)"

definition toLowerCase :: "string \<Rightarrow> string" where
  "toLowerCase s = map lower_char s"

text \<open>
  \<^verbatim>\<open>String.prototype.toUpperCase\<close>, for the code units whose upper case is again one
  code unit below U+0100 (a to z, U+00E0 to U+00FE without the division sign U+00F7). The
  three others (U+00B5, U+00DF, U+00FF) are left as they are; no string of the program
  that is upper-cased contains them.
\<close>

definition upper_char :: "char \<Rightarrow> char" where
  "upper_char c =
     (if is_lower_az c \<or> (224 \<le> code c \<and> code c \<le> 254 \<and> code c \<noteq> 247)
      then char_of (code c - 32) else c)"

definition toUpperCase :: "string \<Rightarrow> string" where
  "toUpperCase s = map upper_char s"

text \<open>
  The white space and line terminators that \<^verbatim>\<open>String.prototype.trim\<close> strips, among the
  code units below U+0100: tab, line feed, vertical tab, form feed, carriage return,
  space and the no-break space U+00A0.
\<close>

definition is_js_space :: "char \<Rightarrow> bool" where
  "is_js_space c \<longleftrightarrow> code c \<in> {9, 10, 11, 12, 13, 32, 160}"

text \<open>\<^verbatim>\<open>trim(str)\<close> of helper.ts: both branches of the source strip the same code units.\<close>

definition trim :: "string \<Rightarrow> string" where
  "trim str = rev (dropWhile is_js_space (rev (dropWhile is_js_space str)))"

definition startsWith :: "string \<Rightarrow> string \<Rightarrow> bool" where
  "startsWith p s \<longleftrightarrow> take (length p) s = p"

text \<open>\<^verbatim>\<open>s.indexOf(p) !== -1\<close>\<close>

fun str_includes :: "string \<Rightarrow> string \<Rightarrow> bool" where
  "str_includes p [] = (p = [])"
| "str_includes p (c # cs) = (startsWith p (c # cs) \<or> str_includes p cs)"

text \<open>\<^verbatim>\<open>parts.join(sep)\<close>\<close>

fun join :: "string \<Rightarrow> string list \<Rightarrow> string" where
  "join sep [] = []"
| "join sep [x] = x"
| "join sep (x # y # ys) = x @ sep @ join sep (y # ys)"

section \<open>URL resolution (helper.ts)\<close>

text \<open>
  \<^verbatim>\<open>isAbsoluteURL\<close> tests \<^verbatim>\<open>/^([a-z][a-z\d+\-.]*:)?\/\//i\<close>. The optional group is a letter,
  the longest run of scheme characters (none of them is a colon, so no shorter run can be
  followed by one) and a colon; without the group the string starts with two slashes.
\<close>

definition is_scheme_char :: "char \<Rightarrow> bool" where
  "is_scheme_char c \<longleftrightarrow> is_alpha c \<or> is_digit c \<or> c \<in> {CHR ''+'', CHR ''-'', CHR ''.''}"

definition isAbsoluteURL :: "string \<Rightarrow> bool" where
  "isAbsoluteURL url \<longleftrightarrow>
     startsWith ''//'' url \<or>
     (case url of
        [] \<Rightarrow> False
      | c # cs \<Rightarrow> is_alpha c \<and> startsWith ''://'' (dropWhile is_scheme_char cs))"

text \<open>\<^verbatim>\<open>baseURL.replace(/\/+$/, '')\<close> and \<^verbatim>\<open>relativeURL.replace(/^\/+/, '')\<close>\<close>

definition strip_trailing_slashes :: "string \<Rightarrow> string" where
  "strip_trailing_slashes s = rev (dropWhile (\<lambda>c. c = CHR ''/'') (rev s))"

definition strip_leading_slashes :: "string \<Rightarrow> string" where
  "strip_leading_slashes s = dropWhile (\<lambda>c. c = CHR ''/'') s"

definition combineURLs :: "string \<Rightarrow> string \<Rightarrow> string" where
  "combineURLs baseURL relativeURL =
     (if relativeURL \<noteq> []
      then strip_trailing_slashes baseURL @ ''/'' @ strip_leading_slashes relativeURL
      else baseURL)"

definition buildFullPath :: "string \<Rightarrow> string \<Rightarrow> string" where
  "buildFullPath baseURL requestedURL =
     (if baseURL \<noteq> [] \<and> \<not> isAbsoluteURL requestedURL
      then combineURLs baseURL requestedURL
      else requestedURL)"

section \<open>JavaScript values\<close>

text \<open>
  The values that reach the program as request parameters, request bodies and response
  bodies.
  \<^item> \<open>Num n\<close> is the number \<open>n\<close>, an integer of magnitude up to \<open>2^53\<close> (beyond it a
    JavaScript number is not every integer; \<^verbatim>\<open>NaN\<close>, the infinities and fractions are
    outside the model); \<open>BigInt n\<close> is the big integer \<open>n\<close>.
  \<^item> \<open>Obj ps\<close> is a plain object: the list of its own enumerable string-keyed properties
    in the order of \<^verbatim>\<open>Object.entries\<close>, without a \<^verbatim>\<open>toJSON\<close> method.
  \<^item> \<open>WithToJSON v\<close> is an object whose only property is a method \<^verbatim>\<open>toJSON\<close> that
    returns \<open>v\<close>.
  \<^item> \<open>Circular\<close> is an object that contains itself.
  \<^item> \<open>Date (Some t)\<close> is a date whose \<^verbatim>\<open>toISOString\<close> returns \<open>t\<close>; \<open>Date None\<close> is an
    invalid date (\<^verbatim>\<open>new Date(NaN)\<close>), whose \<^verbatim>\<open>toISOString\<close> raises a \<^verbatim>\<open>RangeError\<close>.
  \<^item> \<open>Function t\<close> is a function whose \<^verbatim>\<open>toString\<close> returns \<open>t\<close>; \<open>Symbol\<close> is a symbol.
  \<^item> \<open>Host k s\<close> is a host object (form data, buffers, streams, files, blobs, typed
    arrays, URL search parameters) of the kind \<open>k\<close> with the content \<open>s\<close>: for a buffer
    and a typed array (taken as a \<^verbatim>\<open>Uint8Array\<close>) the string of its bytes, for URL search
    parameters the string that \<^verbatim>\<open>toString\<close> returns.
\<close>

datatype host_kind =
  FormData | ArrayBuffer | Buffer | Stream | File | Blob | ArrayBufferView | URLSearchParams

datatype jsval =
    Undefined
  | Null
  | Bool bool
  | Num int
  | BigInt int
  | Str string
  | Symbol
  | Function string
  | Arr "jsval list"
  | Obj "(string \<times> jsval) list"
  | WithToJSON jsval
  | Circular
  | Date "string option"
  | Host host_kind string

text \<open>An exception value: an \<^verbatim>\<open>Error\<close> object with its \<^verbatim>\<open>name\<close> and \<^verbatim>\<open>message\<close>.\<close>

datatype js_error = JSError (name: string) (message: string)

text \<open>
  The errors that the platform raises: a \<^verbatim>\<open>TypeError\<close> (reading a property of
  \<^verbatim>\<open>undefined\<close>, turning a symbol into a string, serialising a big integer or a circular
  object) and the \<^verbatim>\<open>RangeError\<close> of \<^verbatim>\<open>toISOString\<close> on an invalid date. Their messages
  depend on the engine and are left empty.
\<close>

definition TypeError :: js_error where
  "TypeError = JSError ''TypeError'' []"

definition RangeError :: js_error where
  "RangeError = JSError ''RangeError'' []"

text \<open>\<^verbatim>\<open>!v\<close> is false for a truthy value.\<close>

fun truthy :: "jsval \<Rightarrow> bool" where
  "truthy Undefined = False"
| "truthy Null = False"
| "truthy (Bool b) = b"
| "truthy (Num n) = (n \<noteq> 0)"
| "truthy (BigInt n) = (n \<noteq> 0)"
| "truthy (Str s) = (s \<noteq> [])"
| "truthy _ = True"

text \<open>\<^verbatim>\<open>isObject(val)\<close> of helper.ts: \<^verbatim>\<open>val !== null && typeof val === 'object'\<close>\<close>

fun isObject :: "jsval \<Rightarrow> bool" where
  "isObject (Arr _) = True"
| "isObject (Obj _) = True"
| "isObject (WithToJSON _) = True"
| "isObject Circular = True"
| "isObject (Date _) = True"
| "isObject (Host _ _) = True"
| "isObject _ = False"

text \<open>\<^verbatim>\<open>isDate = kindOfTest('Date')\<close>\<close>

fun isDate :: "jsval \<Rightarrow> bool" where
  "isDate (Date _) = True"
| "isDate _ = False"

subsection \<open>Numbers as decimal strings\<close>

definition digit_char :: "nat \<Rightarrow> char" where
  "digit_char d = char_of (48 + d)"

fun show_nat :: "nat \<Rightarrow> string" where
  "show_nat n = (if n < 10 then [digit_char n] else show_nat (n div 10) @ [digit_char (n mod 10)])"

definition show_int :: "int \<Rightarrow> string" where
  "show_int i = (if i < 0 then CHR ''-'' # show_nat (nat (- i)) else show_nat (nat i))"

subsection \<open>\<^verbatim>\<open>JSON.stringify\<close>\<close>

definition hex_lower :: "nat \<Rightarrow> char" where
  "hex_lower d = (if d < 10 then char_of (48 + d) else char_of (87 + d))"

definition hex_upper :: "nat \<Rightarrow> char" where
  "hex_upper d = (if d < 10 then char_of (48 + d) else char_of (55 + d))"

text \<open>The escape of one code unit inside a JSON string literal (\<^verbatim>\<open>QuoteJSONString\<close>).\<close>

definition json_escape_char :: "char \<Rightarrow> string" where
  "json_escape_char c =
     (if c = CHR 0x22 then [CHR 0x5C, CHR 0x22]
      else if c = CHR 0x5C then [CHR 0x5C, CHR 0x5C]
      else if c = CHR 0x08 then [CHR 0x5C, CHR ''b'']
      else if c = CHR 0x0C then [CHR 0x5C, CHR ''f'']
      else if c = CHR 0x0A then [CHR 0x5C, CHR ''n'']
      else if c = CHR 0x0D then [CHR 0x5C, CHR ''r'']
      else if c = CHR 0x09 then [CHR 0x5C, CHR ''t'']
      else if code c < 32
        then [CHR 0x5C, CHR ''u'', CHR ''0'', CHR ''0'', hex_lower (code c div 16), hex_lower (code c mod 16)]
      else [c])"

definition json_quote :: "string \<Rightarrow> string" where
  "json_quote s = [CHR 0x22] @ concat (map json_escape_char s) @ [CHR 0x22]"

text \<open>
  The JSON text of a host object. Form data, array buffers, files, blobs and URL search
  parameters have no enumerable properties of their own, and a stream is taken to have
  none; a typed array has its elements under their indices; a Node buffer has a
  \<^verbatim>\<open>toJSON\<close> method that returns its type and its bytes.
\<close>

fun indexed_bytes :: "nat \<Rightarrow> string \<Rightarrow> string list" where
  "indexed_bytes i [] = []"
| "indexed_bytes i (c # cs) =
     (json_quote (show_nat i) @ '':'' @ show_nat (code c)) # indexed_bytes (Suc i) cs"

definition typed_array_json :: "string \<Rightarrow> string" where
  "typed_array_json s = ''{'' @ join '','' (indexed_bytes 0 s) @ ''}''"

definition buffer_json :: "string \<Rightarrow> string" where
  "buffer_json s =
     ''{'' @ json_quote ''type'' @ '':'' @ json_quote ''Buffer'' @ '','' @ json_quote ''data''
       @ '':['' @ join '','' (map (\<lambda>c. show_nat (code c)) s) @ '']}''"

definition host_json :: "host_kind \<Rightarrow> string \<Rightarrow> string" where
  "host_json k s =
     (if k = Buffer then buffer_json s
      else if k = ArrayBufferView then typed_array_json s
      else ''{}'')"

text \<open>
  \<^verbatim>\<open>JSON.stringify(value)\<close> without replacer or indentation. It raises a \<^verbatim>\<open>TypeError\<close>
  when it meets a big integer or a circular object. Its result is \<^verbatim>\<open>undefined\<close> (here
  \<^term>\<open>None\<close>) for \<^verbatim>\<open>undefined\<close>, a function and a symbol: inside an array these are
  written \<^verbatim>\<open>null\<close>, inside an object the property is left out. A date is written as its
  ISO string, an invalid date as \<^verbatim>\<open>null\<close>. For an object with a \<^verbatim>\<open>toJSON\<close> method the
  value that the method returns is written, and no \<^verbatim>\<open>toJSON\<close> of that value is called: a
  date, a buffer or an object with \<^verbatim>\<open>toJSON\<close> is then written by its enumerable
  properties.
\<close>

fun JSON_stringify :: "jsval \<Rightarrow> js_error + string option"
  and stringify_elements :: "jsval list \<Rightarrow> js_error + string list"
  and stringify_properties :: "(string \<times> jsval) list \<Rightarrow> js_error + string list" where
  "JSON_stringify Undefined = Inr None"
| "JSON_stringify Null = Inr (Some ''null'')"
| "JSON_stringify (Bool b) = Inr (Some (if b then ''true'' else ''false''))"
| "JSON_stringify (Num n) = Inr (Some (show_int n))"
| "JSON_stringify (BigInt n) = Inl TypeError"
| "JSON_stringify (Str s) = Inr (Some (json_quote s))"
| "JSON_stringify Symbol = Inr None"
| "JSON_stringify (Function t) = Inr None"
| "JSON_stringify (Arr xs) =
     (case stringify_elements xs of
        Inl e \<Rightarrow> Inl e
      | Inr ts \<Rightarrow> Inr (Some (''['' @ join '','' ts @ '']'')))"
| "JSON_stringify (Obj ps) =
     (case stringify_properties ps of
        Inl e \<Rightarrow> Inl e
      | Inr ts \<Rightarrow> Inr (Some (''{'' @ join '','' ts @ ''}'')))"
| "JSON_stringify (WithToJSON v) =
     (case v of
        Date d \<Rightarrow> Inr (Some ''{}'')
      | WithToJSON w \<Rightarrow> Inr (Some ''{}'')
      | Host k s \<Rightarrow> Inr (Some (if k = Buffer then typed_array_json s else host_json k s))
      | _ \<Rightarrow> JSON_stringify v)"
| "JSON_stringify Circular = Inl TypeError"
| "JSON_stringify (Date d) = Inr (Some (case d of None \<Rightarrow> ''null'' | Some t \<Rightarrow> json_quote t))"
| "JSON_stringify (Host k s) = Inr (Some (host_json k s))"
| "stringify_elements [] = Inr []"
| "stringify_elements (x # xs) =
     (case JSON_stringify x of
        Inl e \<Rightarrow> Inl e
      | Inr r \<Rightarrow>
          (case stringify_elements xs of
             Inl e \<Rightarrow> Inl e
           | Inr ts \<Rightarrow> Inr ((case r of None \<Rightarrow> ''null'' | Some t \<Rightarrow> t) # ts)))"
| "stringify_properties [] = Inr []"
| "stringify_properties ((k, v) # ps) =
     (case JSON_stringify v of
        Inl e \<Rightarrow> Inl e
      | Inr r \<Rightarrow>
          (case stringify_properties ps of
             Inl e \<Rightarrow> Inl e
           | Inr ts \<Rightarrow>
               Inr (case r of None \<Rightarrow> ts | Some t \<Rightarrow> (json_quote k @ '':'' @ t) # ts)))"

text \<open>
  The conversion to a string that \<^verbatim>\<open>encodeURIComponent\<close> applies to its argument; it
  raises a \<^verbatim>\<open>TypeError\<close> on a symbol. The program converts objects before it turns them
  into strings, so the last equation is never reached from it.
\<close>

fun ToString :: "jsval \<Rightarrow> js_error + string" where
  "ToString Undefined = Inr ''undefined''"
| "ToString Null = Inr ''null''"
| "ToString (Bool b) = Inr (if b then ''true'' else ''false'')"
| "ToString (Num n) = Inr (show_int n)"
| "ToString (BigInt n) = Inr (show_int n)"
| "ToString (Str s) = Inr s"
| "ToString Symbol = Inl TypeError"
| "ToString (Function t) = Inr t"
| "ToString _ = Inr ''[object Object]''"

section \<open>Query strings (helper.ts)\<close>

text \<open>
  \<^verbatim>\<open>encodeURIComponent\<close>: the unreserved characters stay, every other code unit is
  written as the percent-escaped bytes of its UTF-8 encoding, with upper-case hex digits.
  (It raises a \<^verbatim>\<open>URIError\<close> on a lone surrogate, a code unit that the strings of the model
  do not have.)
\<close>

definition is_uri_unreserved :: "char \<Rightarrow> bool" where
  "is_uri_unreserved c \<longleftrightarrow>
     is_alpha c \<or> is_digit c \<or>
     c \<in> {CHR ''-'', CHR ''_'', CHR ''.'', CHR ''!'', CHR ''~'', CHR ''*'', CHR 0x27, CHR ''('', CHR '')''}"

definition percent_byte :: "nat \<Rightarrow> string" where
  "percent_byte b = [CHR ''%'', hex_upper (b div 16), hex_upper (b mod 16)]"

definition encodeURIComponent_char :: "char \<Rightarrow> string" where
  "encodeURIComponent_char c =
     (if is_uri_unreserved c then [c]
      else if code c < 128 then percent_byte (code c)
      else percent_byte (192 + code c div 64) @ percent_byte (128 + code c mod 64))"

definition encodeURIComponent :: "string \<Rightarrow> string" where
  "encodeURIComponent s = concat (map encodeURIComponent_char s)"

text \<open>
  \<^verbatim>\<open>s.replace(/%XY/g, r)\<close> for a pattern of three characters: \<open>m\<close> decides whether
  three characters match (exactly, or without regard to case for the flag \<^verbatim>\<open>i\<close>).
\<close>

fun replace3 :: "(string \<Rightarrow> bool) \<Rightarrow> string \<Rightarrow> string \<Rightarrow> string" where
  "replace3 m r (a # b # c # rest) =
     (if m [a, b, c] then r @ replace3 m r rest else a # replace3 m r (b # c # rest))"
| "replace3 m r s = s"

definition matches :: "string \<Rightarrow> string \<Rightarrow> bool" where
  "matches p t \<longleftrightarrow> t = p"

definition matches_i :: "string \<Rightarrow> string \<Rightarrow> bool" where
  "matches_i p t \<longleftrightarrow> toUpperCase t = toUpperCase p"

text \<open>\<^verbatim>\<open>encode(val)\<close> of helper.ts, on a string.\<close>

definition encode :: "string \<Rightarrow> string" where
  "encode val =
     replace3 (matches_i ''%5D'') '']''
      (replace3 (matches_i ''%5B'') ''[''
        (replace3 (matches ''%20'') ''+''
          (replace3 (matches_i ''%2C'') '',''
            (replace3 (matches ''%24'') ''$''
              (replace3 (matches_i ''%3A'') '':'' (encodeURIComponent val))))))"

text \<open>
  The body of the inner \<^verbatim>\<open>forEach\<close> of \<^verbatim>\<open>buildURL\<close>: a date becomes its ISO string
  (\<^verbatim>\<open>toISOString\<close> raises a \<^verbatim>\<open>RangeError\<close> on an invalid date), any other object its JSON
  text (\<^verbatim>\<open>JSON.stringify\<close> may raise a \<^verbatim>\<open>TypeError\<close>), and \<^verbatim>\<open>encode\<close> turns what is left
  into a string (\<^verbatim>\<open>encodeURIComponent\<close> converts its argument to a string first, which
  raises a \<^verbatim>\<open>TypeError\<close> on a symbol).
\<close>

definition encode_value :: "jsval \<Rightarrow> js_error + string" where
  "encode_value v =
     (if isDate v then
        (case v of Date (Some t) \<Rightarrow> Inr (encode t) | _ \<Rightarrow> Inl RangeError)
      else if isObject v then
        (case JSON_stringify v of
           Inl e \<Rightarrow> Inl e
         | Inr None \<Rightarrow> Inr (encode ''undefined'')
         | Inr (Some t) \<Rightarrow> Inr (encode t))
      else (case ToString v of Inl e \<Rightarrow> Inl e | Inr t \<Rightarrow> Inr (encode t)))"

text \<open>The results of a loop that stops at the first error.\<close>

fun collect :: "(js_error + 'a) list \<Rightarrow> js_error + 'a list" where
  "collect [] = Inr []"
| "collect (Inl e # rs) = Inl e"
| "collect (Inr x # rs) = (case collect rs of Inl e \<Rightarrow> Inl e | Inr xs \<Rightarrow> Inr (x # xs))"

text \<open>The parts that one entry of \<^verbatim>\<open>params\<close> contributes.\<close>

definition param_part :: "string \<Rightarrow> jsval \<Rightarrow> js_error + string" where
  "param_part key v =
     (case encode_value v of Inl e \<Rightarrow> Inl e | Inr t \<Rightarrow> Inr (encode key @ ''='' @ t))"

definition param_parts :: "string \<times> jsval \<Rightarrow> js_error + string list" where
  "param_parts kv =
     (case kv of (key, val) \<Rightarrow>
        (if val = Null \<or> val = Undefined then Inr []
         else (case val of
                 Arr vs \<Rightarrow> collect (map (param_part (key @ ''[]'')) vs)
               | _ \<Rightarrow> collect [param_part key val])))"

text \<open>
  \<^verbatim>\<open>buildURL(url, params)\<close>: \<^term>\<open>None\<close> is a missing (\<^verbatim>\<open>undefined\<close> or \<^verbatim>\<open>null\<close>)
  \<^verbatim>\<open>params\<close>. It returns the URL or raises the first error of its loop.
\<close>

definition buildURL :: "string \<Rightarrow> (string \<times> jsval) list option \<Rightarrow> js_error + string" where
  "buildURL url params =
     (case params of
        None \<Rightarrow> Inr url
      | Some ps \<Rightarrow>
          (case collect (map param_parts ps) of
             Inl e \<Rightarrow> Inl e
           | Inr parts \<Rightarrow>
               Inr (url @ (if CHR ''?'' \<notin> set url then ''?'' else ''&'')
                        @ join ''&'' (concat parts))))"

section \<open>Response headers and protocol (helper.ts)\<close>

text \<open>
  A header value: a string or a number in a request, a string or (for \<^verbatim>\<open>set-cookie\<close>) a
  list of strings in a parsed response. A header object is the list of its entries in
  the order of \<^verbatim>\<open>Object.entries\<close>, each key once.
\<close>

datatype hval = HStr string | HNum int | HArr "string list"

type_synonym header_map = "(string \<times> hval) list"

definition ignoreDuplicateOf :: "string list" where
  "ignoreDuplicateOf =
     [''age'', ''authorization'', ''content-length'', ''content-type'', ''etag'', ''expires'',
      ''from'', ''host'', ''if-modified-since'', ''if-unmodified-since'', ''last-modified'',
      ''location'', ''max-forwards'', ''proxy-authorization'', ''referer'', ''retry-after'',
      ''user-agent'']"

text \<open>\<^verbatim>\<open>headers.split('\n')\<close>: always at least one piece.\<close>

fun split_on :: "char \<Rightarrow> string \<Rightarrow> string list" where
  "split_on d [] = [[]]"
| "split_on d (c # cs) =
     (if c = d then [] # split_on d cs
      else (case split_on d cs of [] \<Rightarrow> [[c]] | l # ls \<Rightarrow> (c # l) # ls))"

text \<open>
  The key and the value of one line. \<^verbatim>\<open>indexOf(':')\<close> is -1 on a line without a colon:
  then \<^verbatim>\<open>line.slice(0, -1)\<close> is the line without its last character and
  \<^verbatim>\<open>line.slice(0)\<close> the whole line.
\<close>

definition line_key :: "string \<Rightarrow> string" where
  "line_key line =
     toLowerCase (trim (if CHR '':'' \<in> set line
                        then takeWhile (\<lambda>c. c \<noteq> CHR '':'') line
                        else butlast line))"

definition line_val :: "string \<Rightarrow> string" where
  "line_val line =
     trim (if CHR '':'' \<in> set line
           then drop 1 (dropWhile (\<lambda>c. c \<noteq> CHR '':'') line)
           else line)"

text \<open>
  \<^verbatim>\<open>parsed\<close> starts as \<^verbatim>\<open>{}\<close> and inherits from \<^verbatim>\<open>Object.prototype\<close>. A key is lower-cased,
  and the inherited properties with a name in lower case are \<^verbatim>\<open>constructor\<close>, the function
  \<^verbatim>\<open>Object\<close>, and \<^verbatim>\<open>__proto__\<close>, the prototype. Both are truthy; \<open>inherited\<close> gives the
  string that each becomes when \<^verbatim>\<open>', '\<close> is added to it (for the function as V8 and
  JavaScriptCore print it; the text depends on the engine).
\<close>

definition inherited :: "string \<Rightarrow> string option" where
  "inherited key =
     (if key = ''constructor'' then Some ''function Object() { [native code] }''
      else if key = ''__proto__'' then Some ''[object Object]''
      else None)"

text \<open>Reading \<^verbatim>\<open>parsed[key]\<close>: the own property, or else the inherited one.\<close>

definition get_parsed :: "header_map \<Rightarrow> string \<Rightarrow> hval option" where
  "get_parsed parsed key =
     (case map_of parsed key of
        Some v \<Rightarrow> Some v
      | None \<Rightarrow> map_option HStr (inherited key))"

text \<open>
  Writing \<^verbatim>\<open>parsed[key] = v\<close>: an own property, but for \<^verbatim>\<open>__proto__\<close>, whose setter
  ignores a value that is not an object.
\<close>

definition set_parsed :: "string \<Rightarrow> hval \<Rightarrow> header_map \<Rightarrow> header_map" where
  "set_parsed key v parsed = (if key = ''__proto__'' then parsed else AList.update key v parsed)"

text \<open>\<^verbatim>\<open>parsed[key]\<close> taken as a condition.\<close>

fun hval_truthy :: "hval option \<Rightarrow> bool" where
  "hval_truthy None = False"
| "hval_truthy (Some (HStr s)) = (s \<noteq> [])"
| "hval_truthy (Some (HNum n)) = (n \<noteq> 0)"
| "hval_truthy (Some (HArr xs)) = True"

text \<open>\<^verbatim>\<open>String(v)\<close> of a header value; an array is joined with commas.\<close>

fun hval_string :: "hval \<Rightarrow> string" where
  "hval_string (HStr s) = s"
| "hval_string (HNum n) = show_int n"
| "hval_string (HArr xs) = join '','' xs"

text \<open>
  The body of the \<^verbatim>\<open>forEach\<close> of \<^verbatim>\<open>parseHeaders\<close>, for one line. Under \<^verbatim>\<open>set-cookie\<close>
  only arrays are stored, so \<^verbatim>\<open>push\<close> always finds one.
\<close>

definition parse_line :: "header_map \<Rightarrow> string \<Rightarrow> header_map" where
  "parse_line parsed line =
     (let key = line_key line; val = line_val line in
      if key = [] then parsed
      else if hval_truthy (get_parsed parsed key) \<and> key \<in> set ignoreDuplicateOf then parsed
      else if key = ''set-cookie'' then
        (if \<not> hval_truthy (get_parsed parsed key) then set_parsed key (HArr [val]) parsed
         else (case get_parsed parsed key of
                 Some (HArr vs) \<Rightarrow> set_parsed key (HArr (vs @ [val])) parsed
               | _ \<Rightarrow> parsed))
      else set_parsed key
             (if hval_truthy (get_parsed parsed key)
              then (case get_parsed parsed key of
                      Some v \<Rightarrow> HStr (hval_string v @ '', '' @ val)
                    | None \<Rightarrow> HStr val)
              else HStr val) parsed)"

definition parseHeaders :: "string \<Rightarrow> header_map" where
  "parseHeaders hs = (if hs = [] then [] else foldl parse_line [] (split_on CHR 0x0A hs))"

text \<open>
  \<^verbatim>\<open>parseProtocol\<close> tests \<^verbatim>\<open>/^([-+\w]{1,25})(:?\/\/|:)/\<close> and returns the first group, or
  the empty string without a match. What follows the group is no character of its class,
  so the group is the whole leading run of such characters, of 1 to 25 of them, followed
  by a colon or by two slashes.
\<close>

definition is_protocol_char :: "char \<Rightarrow> bool" where
  "is_protocol_char c \<longleftrightarrow>
     is_alpha c \<or> is_digit c \<or> c \<in> {CHR ''_'', CHR ''-'', CHR ''+''}"

definition parseProtocol :: "string \<Rightarrow> string" where
  "parseProtocol url =
     (let run = takeWhile is_protocol_char url; rest = dropWhile is_protocol_char url in
      if 1 \<le> length run \<and> length run \<le> 25 \<and> (startsWith '':'' rest \<or> startsWith ''//'' rest)
      then run else [])"

section \<open>Safe stringification (helper.ts)\<close>

text \<open>
  \<^verbatim>\<open>JSON.parse\<close> belongs to the platform. The functions that call it take it as their
  first argument: it returns the parsed value or raises an error.
\<close>

type_synonym json_parser = "jsval \<Rightarrow> js_error + jsval"

text \<open>
  \<^verbatim>\<open>stringifySafely(rawValue)\<close>. The result of \<^verbatim>\<open>trim\<close> is a string, the result of
  \<^verbatim>\<open>JSON.stringify\<close> a string or \<^verbatim>\<open>undefined\<close>; both are returned as values.
\<close>

definition of_stringified :: "string option \<Rightarrow> jsval" where
  "of_stringified r = (case r of None \<Rightarrow> Undefined | Some t \<Rightarrow> Str t)"

text \<open>The value of the expression \<^verbatim>\<open>JSON.stringify(v)\<close>, or the error it raises.\<close>

definition stringified :: "jsval \<Rightarrow> js_error + jsval" where
  "stringified v = (case JSON_stringify v of Inl e \<Rightarrow> Inl e | Inr r \<Rightarrow> Inr (of_stringified r))"

definition stringifySafely :: "json_parser \<Rightarrow> jsval \<Rightarrow> js_error + jsval" where
  "stringifySafely JSON_parse rawValue =
     (case rawValue of
        Str s \<Rightarrow>
          (case JSON_parse rawValue of
             Inr _ \<Rightarrow> Inr (Str (trim s))
           | Inl e \<Rightarrow>
               if name e \<noteq> ''SyntaxError'' then Inl e
               else stringified rawValue)
      | _ \<Rightarrow> stringified rawValue)"

section \<open>Promises and interceptors (client.ts)\<close>

text \<open>
  A settled promise is fulfilled with a value or rejected with an error. The value a
  chain of interceptors passes on is \<^term>\<open>Some v\<close>, or \<^term>\<open>None\<close> for
  \<^verbatim>\<open>undefined\<close>, which the default \<^verbatim>\<open>onRejected\<close> returns. A callback is a function to
  the outcome of the promise that \<^verbatim>\<open>then\<close> returns for it: returning a value fulfils,
  throwing or returning a rejected promise rejects. Callbacks are taken to settle.
\<close>

datatype 'a outcome = Fulfilled 'a | Rejected js_error

record 'a handler =
  fulfilled :: "'a option \<Rightarrow> 'a option outcome"
  rejected :: "js_error \<Rightarrow> 'a option outcome"

text \<open>The \<^verbatim>\<open>handlers\<close> array of an \<^verbatim>\<open>InterceptorManager\<close>: a slot is a handler or \<^verbatim>\<open>null\<close>.\<close>

type_synonym 'a InterceptorManager = "'a handler option list"

text \<open>The default \<^verbatim>\<open>onRejected\<close> of \<^verbatim>\<open>use\<close>, \<^verbatim>\<open>() => {}\<close>.\<close>

definition noop :: "js_error \<Rightarrow> 'a option outcome" where
  "noop e = Fulfilled None"

text \<open>\<^verbatim>\<open>use\<close> pushes a slot and returns its index, the handle.\<close>

definition use ::
  "'a InterceptorManager \<Rightarrow> ('a option \<Rightarrow> 'a option outcome) \<Rightarrow> (js_error \<Rightarrow> 'a option outcome)
     \<Rightarrow> 'a InterceptorManager \<times> nat" where
  "use handlers onFulfilled onRejected =
     (handlers @ [Some \<lparr>fulfilled = onFulfilled, rejected = onRejected\<rparr>], length handlers)"

text \<open>
  \<^verbatim>\<open>eject(id)\<close> assigns \<^verbatim>\<open>null\<close> to the slot. An assignment beyond the end of a JavaScript
  array extends it; the slots in between are holes, which \<^verbatim>\<open>reduce\<close> and the spread
  treat like \<^verbatim>\<open>null\<close>.
\<close>

definition eject :: "'a InterceptorManager \<Rightarrow> nat \<Rightarrow> 'a InterceptorManager" where
  "eject handlers i =
     (if i < length handlers then handlers[i := None]
      else handlers @ replicate (i + 1 - length handlers) None)"

text \<open>\<^verbatim>\<open>promise.then((v) => handler.fulfilled(v), (e) => handler.rejected(e))\<close>\<close>

definition then_handler :: "'a option outcome \<Rightarrow> 'a handler \<Rightarrow> 'a option outcome" where
  "then_handler promise h =
     (case promise of Fulfilled v \<Rightarrow> fulfilled h v | Rejected e \<Rightarrow> rejected h e)"

text \<open>
  The fold of \<^verbatim>\<open>berforeRequest\<close> and \<^verbatim>\<open>afterRequest\<close> in client.ts:
  \<^verbatim>\<open>handlers.reduce((promise, handler) => handler ? promise.then(...) : promise, initial)\<close>.
\<close>

fun reduce_then :: "'a handler option list \<Rightarrow> 'a option outcome \<Rightarrow> 'a option outcome" where
  "reduce_then [] promise = promise"
| "reduce_then (None # hs) promise = reduce_then hs promise"
| "reduce_then (Some h # hs) promise = reduce_then hs (then_handler promise h)"

text \<open>
  The same fold in two phases, to observe which callbacks run. \<^verbatim>\<open>reduce\<close> runs to its end
  at once: for every slot that holds a handler at that moment it attaches that handler to
  the promise chain with \<^verbatim>\<open>then\<close>; \<open>attach\<close> gives the attached handlers with their slot
  numbers. The callbacks run later, one after the other as the promises settle;
  \<open>settle\<close> runs a chain of attached handlers and returns the slot numbers of the
  handlers it has run and the final outcome.
\<close>

fun attach :: "nat \<Rightarrow> 'a handler option list \<Rightarrow> (nat \<times> 'a handler) list" where
  "attach i [] = []"
| "attach i (None # hs) = attach (Suc i) hs"
| "attach i (Some h # hs) = (i, h) # attach (Suc i) hs"

fun settle :: "(nat \<times> 'a handler) list \<Rightarrow> 'a option outcome \<Rightarrow> nat list \<times> 'a option outcome" where
  "settle [] promise = ([], promise)"
| "settle ((i, h) # chain) promise =
     (case settle chain (then_handler promise h) of (executed, final) \<Rightarrow> (i # executed, final))"

text \<open>
  The fold of \<^verbatim>\<open>afterRequest\<close> in the second client of the unnamed source file: on an empty
  slot it returns \<^verbatim>\<open>promise\<close>, the argument of \<^verbatim>\<open>afterRequest\<close>, where client.ts returns
  the accumulator \<^verbatim>\<open>request\<close>.
\<close>

fun reduce_then_dup ::
  "'a option outcome \<Rightarrow> 'a handler option list \<Rightarrow> 'a option outcome \<Rightarrow> 'a option outcome" where
  "reduce_then_dup promise [] request = request"
| "reduce_then_dup promise (None # hs) request = reduce_then_dup promise hs promise"
| "reduce_then_dup promise (Some h # hs) request =
     reduce_then_dup promise hs (then_handler request h)"

section \<open>Configuration and transport (client.ts)\<close>

datatype Method =
    M_get | M_GET | M_delete | M_DELETE | M_head | M_HEAD | M_options | M_OPTIONS
  | M_post | M_POST | M_put | M_PUT | M_patch | M_PATCH

text \<open>The string that a value of the type \<^verbatim>\<open>Method\<close> is.\<close>

fun method_string :: "Method \<Rightarrow> string" where
  "method_string M_get = ''get''"
| "method_string M_GET = ''GET''"
| "method_string M_delete = ''delete''"
| "method_string M_DELETE = ''DELETE''"
| "method_string M_head = ''head''"
| "method_string M_HEAD = ''HEAD''"
| "method_string M_options = ''options''"
| "method_string M_OPTIONS = ''OPTIONS''"
| "method_string M_post = ''post''"
| "method_string M_POST = ''POST''"
| "method_string M_put = ''put''"
| "method_string M_PUT = ''PUT''"
| "method_string M_patch = ''patch''"
| "method_string M_PATCH = ''PATCH''"

text \<open>
  The four properties of \<^verbatim>\<open>RequetConstructor\<close> are copied by \<^verbatim>\<open>Object.assign\<close> and the
  spread, which copy a property that is present with the value \<^verbatim>\<open>undefined\<close> and skip a
  missing one. Such a property is \<^term>\<open>None\<close> when it is missing, \<^term>\<open>Some None\<close> when
  it is present with the value \<^verbatim>\<open>undefined\<close>, and \<^term>\<open>Some (Some v)\<close> when it has the
  value \<open>v\<close>; \<open>read_prop\<close> reads it. The properties \<^verbatim>\<open>method\<close> (the field \<open>req_method\<close>) and
  \<^verbatim>\<open>params\<close> have one source only and are \<^term>\<open>None\<close> when missing or \<^verbatim>\<open>undefined\<close>;
  \<^verbatim>\<open>data\<close> is \<^term>\<open>Undefined\<close> then. \<^verbatim>\<open>withCredentials\<close> is declared and never read.
\<close>

definition read_prop :: "'a option option \<Rightarrow> 'a option" where
  "read_prop p = (case p of None \<Rightarrow> None | Some v \<Rightarrow> v)"

record RequetConstructor =
  baseURL :: "string option option"
  headers :: "header_map option option"
  timeout :: "nat option option"
  responseType :: "string option option"

record RequestConfig = RequetConstructor +
  url :: string
  req_method :: "Method option"
  params :: "(string \<times> jsval) list option"
  data :: jsval

record ReqeustResponse =
  res_data :: jsval
  status :: nat
  statusText :: string
  res_headers :: header_map
  config :: RequestConfig

text \<open>
  The transport (\<^verbatim>\<open>XMLHttpRequest\<close>) is outside the sources. Its part is the calls the
  program makes on it, in their order; what it offers (\<^verbatim>\<open>'onloadend' in xhr\<close>,
  \<^verbatim>\<open>'setRequestHeader' in xhr\<close>); and the one terminal event it raises after \<^verbatim>\<open>send\<close>,
  with the fields the program reads when the request has completed.
\<close>

datatype xhr_call =
    XhrSetTimeout nat
  | XhrOpen string string bool
  | XhrSetRequestHeader string string
  | XhrSetResponseType string
  | XhrSend jsval

record xhr_caps =
  has_onloadend :: bool
  has_setRequestHeader :: bool

record xhr_fields =
  xhr_status :: nat
  xhr_statusText :: string
  responseText :: string
  response :: jsval
  responseURL :: string
  allResponseHeaders :: string

datatype xhr_event = Completed xhr_fields | NetworkError | TimedOut | Aborted

text \<open>
  \<^verbatim>\<open>{...a, ...b}\<close> and \<^verbatim>\<open>Object.assign\<close> on objects as lists of entries: a new key goes
  to the end, a known key keeps its place (keys that are array indices, which JavaScript
  puts first, are outside the model).
\<close>

definition obj_assign :: "('k \<times> 'v) list \<Rightarrow> ('k \<times> 'v) list \<Rightarrow> ('k \<times> 'v) list" where
  "obj_assign a b = foldl (\<lambda>acc kv. AList.update (fst kv) (snd kv) acc) a b"

text \<open>
  A property after \<^verbatim>\<open>Object.assign(target, source)\<close>: that of the source when the source
  has it (first argument), be its value \<^verbatim>\<open>undefined\<close>, else that of the target.
\<close>

definition or_else :: "'a option \<Rightarrow> 'a option \<Rightarrow> 'a option" where
  "or_else a b = (case a of None \<Rightarrow> b | Some v \<Rightarrow> Some v)"

section \<open>The payload transformer (client.ts)\<close>

text \<open>
  Modelled from the spec: \<^verbatim>\<open>normalizeHeaderName\<close>, which client.ts imports from helper.ts
  and helper.ts does not hold. It "finds any case-insensitive match for canonicalName among
  existing keys and renames it to the canonical casing in place, leaving the value
  untouched; if no match exists, does nothing".
\<close>

definition normalizeHeaderName :: "header_map \<Rightarrow> string \<Rightarrow> header_map" where
  "normalizeHeaderName hs normalizedName =
     foldl (\<lambda>acc kv.
              if fst kv \<noteq> normalizedName \<and> toLowerCase (fst kv) = toLowerCase normalizedName
              then AList.delete (fst kv) (AList.update normalizedName (snd kv) acc)
              else acc) hs hs"

text \<open>
  Modelled from the spec: \<^verbatim>\<open>setContentTypeIfUnset\<close>, missing from helper.ts in the same
  way. It "sets only when the canonical key is absent".
\<close>

definition setContentTypeIfUnset :: "header_map \<Rightarrow> string \<Rightarrow> header_map" where
  "setContentTypeIfUnset hs val =
     (if map_of hs ''Content-Type'' = None then AList.update ''Content-Type'' (HStr val) hs
      else hs)"

text \<open>
  Modelled from the spec: the type tests \<^verbatim>\<open>isFormData\<close>, \<^verbatim>\<open>isArrayBuffer\<close>, \<^verbatim>\<open>isBuffer\<close>,
  \<^verbatim>\<open>isStream\<close>, \<^verbatim>\<open>isFile\<close>, \<^verbatim>\<open>isBlob\<close>, \<^verbatim>\<open>isArrayBufferView\<close> and \<^verbatim>\<open>isURLSearchParams\<close>,
  missing from helper.ts in the same way: each recognises the host objects of its kind
  (data "already in a pass-through binary/stream/form/file/blob shape", a
  "typed-array/binary-view payload", a "URL-encoded-params payload").
\<close>

definition host_is :: "host_kind \<Rightarrow> jsval \<Rightarrow> bool" where
  "host_is k v = (case v of Host k' _ \<Rightarrow> k' = k | _ \<Rightarrow> False)"

definition host_content :: "jsval \<Rightarrow> string" where
  "host_content v = (case v of Host _ s \<Rightarrow> s | _ \<Rightarrow> [])"

text \<open>
  \<^verbatim>\<open>transformRequest(data, headers)\<close> returns the body and changes \<^verbatim>\<open>headers\<close> in place:
  the model returns both, or the error that \<^verbatim>\<open>stringifySafely\<close> raises.
\<close>

definition transformRequest ::
  "json_parser \<Rightarrow> jsval \<Rightarrow> header_map \<Rightarrow> js_error + jsval \<times> header_map" where
  "transformRequest JSON_parse d hs =
     (let hs1 = normalizeHeaderName (normalizeHeaderName hs ''Accept'') ''Content-Type'' in
      if \<not> truthy d \<or> host_is FormData d \<or> host_is ArrayBuffer d \<or> host_is Buffer d \<or>
         host_is Stream d \<or> host_is File d \<or> host_is Blob d
      then Inr (d, hs1)
      else if host_is ArrayBufferView d then Inr (Host ArrayBuffer (host_content d), hs1)
      else if host_is URLSearchParams d then
        Inr (Str (host_content d),
             setContentTypeIfUnset hs1 ''application/x-www-form-urlencoded;charset=utf-8'')
      else
        (let isObjectPayload = isObject d;
             contentType =
               (if hval_truthy (map_of hs1 ''Content-Type'')
                then (case map_of hs1 ''Content-Type'' of Some v \<Rightarrow> hval_string v | None \<Rightarrow> [])
                else [])
         in if isObjectPayload \<or> str_includes ''application/json'' contentType
            then (case stringifySafely JSON_parse d of
                    Inl e \<Rightarrow> Inl e
                  | Inr body \<Rightarrow> Inr (body, setContentTypeIfUnset hs1 ''application/json''))
            else Inr (d, hs1)))"

text \<open>
  \<^verbatim>\<open>beforeSendRquestInterceptor\<close>, the stage that \<^verbatim>\<open>request\<close> appends to the request
  interceptors. Its \<^verbatim>\<open>fulfilled\<close> reads \<^verbatim>\<open>config.headers\<close>, which raises a
  \<^verbatim>\<open>TypeError\<close> on \<^verbatim>\<open>undefined\<close>.
\<close>

definition beforeSend_fulfilled ::
  "json_parser \<Rightarrow> RequestConfig option \<Rightarrow> RequestConfig option outcome" where
  "beforeSend_fulfilled JSON_parse c =
     (case c of
        None \<Rightarrow> Rejected TypeError
      | Some cfg \<Rightarrow>
          (let hs0 = (case read_prop (headers cfg) of None \<Rightarrow> [] | Some hs \<Rightarrow> hs);
               hs1 = (if read_prop (responseType cfg) = Some ''json''
                      then AList.update ''Content-Type'' (HStr ''application/json'')
                             (AList.update ''Accept'' (HStr ''application/json'') hs0)
                      else hs0)
           in case transformRequest JSON_parse (if truthy (data cfg) then data cfg else Obj []) hs1 of
                Inl e \<Rightarrow> Rejected e
              | Inr (body, hs2) \<Rightarrow>
                  Fulfilled (Some (cfg\<lparr>headers := Some (Some hs2), data := body\<rparr>))))"

definition beforeSendRquestInterceptor :: "json_parser \<Rightarrow> RequestConfig handler" where
  "beforeSendRquestInterceptor JSON_parse =
     \<lparr>fulfilled = beforeSend_fulfilled JSON_parse, rejected = noop\<rparr>"

section \<open>The client (client.ts)\<close>

record Client =
  defaultOptions :: RequetConstructor
  interceptors_request :: "RequestConfig InterceptorManager"
  interceptors_response :: "ReqeustResponse InterceptorManager"

text \<open>The two callbacks of the response interceptor that the constructor installs.\<close>

definition parse_json_response ::
  "json_parser \<Rightarrow> ReqeustResponse option \<Rightarrow> ReqeustResponse option outcome" where
  "parse_json_response JSON_parse r =
     (case r of
        None \<Rightarrow> Rejected TypeError
      | Some res \<Rightarrow>
          if read_prop (responseType (config res)) = Some ''json'' \<and> truthy (res_data res)
          then (case JSON_parse (res_data res) of
                  Inl e \<Rightarrow> Rejected e
                | Inr v \<Rightarrow> Fulfilled (Some (res\<lparr>res_data := v\<rparr>)))
          else Fulfilled (Some res))"

definition rethrow :: "js_error \<Rightarrow> 'a option outcome" where
  "rethrow e = Rejected e"

text \<open>
  \<^verbatim>\<open>new Client(options)\<close>: \<^verbatim>\<open>Object.assign(this.defaultOptions, options)\<close> on the initial
  \<^verbatim>\<open>defaultOptions\<close>, whose only property is \<^verbatim>\<open>headers\<close>.
\<close>

definition Client_new :: "json_parser \<Rightarrow> RequetConstructor \<Rightarrow> Client" where
  "Client_new JSON_parse opts =
     \<lparr>defaultOptions =
        \<lparr>baseURL = baseURL opts,
         headers = or_else (headers opts)
                     (Some (Some [(''Accept'', HStr ''application/json, text/plain, */*'')])),
         timeout = timeout opts,
         responseType = responseType opts\<rparr>,
      interceptors_request = [],
      interceptors_response = fst (use [] (parse_json_response JSON_parse) rethrow)\<rparr>"

text \<open>The header loop of \<^verbatim>\<open>_request\<close>: the \<^verbatim>\<open>setRequestHeader\<close> calls for one entry.\<close>

definition header_contents :: "hval \<Rightarrow> string list" where
  "header_contents h = (case h of HArr xs \<Rightarrow> xs | _ \<Rightarrow> [hval_string h])"

definition header_calls :: "jsval \<Rightarrow> string \<times> hval \<Rightarrow> xhr_call list" where
  "header_calls d kh =
     (if d = Undefined \<and> toLowerCase (fst kh) = ''content-type'' then []
      else map (XhrSetRequestHeader (fst kh)) (header_contents (snd kh)))"

text \<open>\<^verbatim>\<open>onloadend\<close>: the response built from the fields of the transport.\<close>

definition onloadend :: "RequestConfig \<Rightarrow> string \<Rightarrow> xhr_fields \<Rightarrow> ReqeustResponse" where
  "onloadend mergeConfig rt xhr =
     \<lparr>res_data = (if rt = [] \<or> rt = ''text'' \<or> rt = ''json''
                  then Str (responseText xhr) else response xhr),
      status = xhr_status xhr,
      statusText = xhr_statusText xhr,
      res_headers = parseHeaders (allResponseHeaders xhr),
      config = mergeConfig\<rparr>"

text \<open>
  How the promise of \<^verbatim>\<open>_request\<close> settles on the terminal event; \<^term>\<open>None\<close> when it
  never settles (\<^verbatim>\<open>handleLoad\<close> returns without a call of \<^verbatim>\<open>onloadend\<close>).
\<close>

definition on_event ::
  "RequestConfig \<Rightarrow> string \<Rightarrow> xhr_caps \<Rightarrow> xhr_event \<Rightarrow> ReqeustResponse option outcome option" where
  "on_event mergeConfig rt caps ev =
     (case ev of
        Completed xhr \<Rightarrow>
          if has_onloadend caps then Some (Fulfilled (Some (onloadend mergeConfig rt xhr)))
          else if xhr_status xhr = 0 \<and>
                  \<not> (responseURL xhr \<noteq> [] \<and> startsWith ''file:'' (responseURL xhr))
          then None
          else Some (Fulfilled (Some (onloadend mergeConfig rt xhr)))
      | NetworkError \<Rightarrow> Some (Rejected (JSError ''Error'' ''Network request failed''))
      | TimedOut \<Rightarrow> Some (Rejected (JSError ''Error'' ''Network request timeout''))
      | Aborted \<Rightarrow> Some (Rejected (JSError ''Error'' ''Network request aborted'')))"

text \<open>\<^verbatim>\<open>fullPath\<close> in \<^verbatim>\<open>_request\<close>: \<^verbatim>\<open>buildFullPath(baseURL || '', url)\<close>\<close>

definition full_path :: "RequestConfig \<Rightarrow> string" where
  "full_path cfg =
     buildFullPath (case read_prop (baseURL cfg) of None \<Rightarrow> [] | Some b \<Rightarrow> b) (url cfg)"

text \<open>
  \<^verbatim>\<open>_request(mergeConfig)\<close>, here \<open>request_transport\<close>: the calls on the transport and how
  the returned promise settles. Destructuring \<^verbatim>\<open>undefined\<close> raises a \<^verbatim>\<open>TypeError\<close>
  before anything else. Inside the executor of the promise, \<^verbatim>\<open>buildURL\<close> is called before
  the timeout is set and before the protocol is checked: an error that it raises rejects
  the promise, and nothing has been called on the transport.
\<close>

definition request_transport ::
  "RequestConfig option \<Rightarrow> xhr_caps \<Rightarrow> xhr_event
     \<Rightarrow> xhr_call list \<times> ReqeustResponse option outcome option" where
  "request_transport c caps ev =
     (case c of
        None \<Rightarrow> ([], Some (Rejected TypeError))
      | Some mergeConfig \<Rightarrow>
          (let rt = (case read_prop (responseType mergeConfig) of None \<Rightarrow> ''json'' | Some t \<Rightarrow> t);
               requestHeaders = (case read_prop (headers mergeConfig) of None \<Rightarrow> [] | Some hs \<Rightarrow> hs);
               fullPath = full_path mergeConfig
           in case buildURL fullPath (params mergeConfig) of
                Inl e \<Rightarrow> ([], Some (Rejected e))
              | Inr requestUrl \<Rightarrow>
                  (let protocol = parseProtocol fullPath;
                       calls0 = (case read_prop (timeout mergeConfig) of
                                   None \<Rightarrow> []
                                 | Some t \<Rightarrow> if t \<noteq> 0 then [XhrSetTimeout t] else [])
                   in if protocol \<noteq> [] \<and>
                         protocol \<notin> set [''http'', ''https'', ''file'', ''blob'']
                      then (calls0, Some (Rejected (JSError ''Error'' ''Unsupported protocol'')))
                      else
                        (calls0
                         @ [XhrOpen (toUpperCase (case req_method mergeConfig of
                                                    None \<Rightarrow> ''get'' | Some m \<Rightarrow> method_string m))
                              requestUrl True]
                         @ (if has_setRequestHeader caps
                            then concat (map (header_calls (data mergeConfig)) requestHeaders)
                            else [])
                         @ (if rt \<noteq> [] \<and> rt \<noteq> ''json'' then [XhrSetResponseType rt] else [])
                         @ [XhrSend (if truthy (data mergeConfig) then data mergeConfig else Null)],
                         on_event mergeConfig rt caps ev))))"

text \<open>The two folds of \<^verbatim>\<open>request\<close>.\<close>

definition berforeRequest ::
  "json_parser \<Rightarrow> Client \<Rightarrow> RequestConfig \<Rightarrow> RequestConfig option outcome" where
  "berforeRequest JSON_parse client cfg =
     reduce_then (interceptors_request client @ [Some (beforeSendRquestInterceptor JSON_parse)])
       (Fulfilled (Some cfg))"

definition afterRequest ::
  "Client \<Rightarrow> ReqeustResponse option outcome \<Rightarrow> ReqeustResponse option outcome" where
  "afterRequest client promise = reduce_then (interceptors_response client) promise"

text \<open>\<^verbatim>\<open>afterRequest\<close> of the second client of the unnamed source file.\<close>

definition afterRequest_dup ::
  "Client \<Rightarrow> ReqeustResponse option outcome \<Rightarrow> ReqeustResponse option outcome" where
  "afterRequest_dup client promise = reduce_then_dup promise (interceptors_response client) promise"

text \<open>
  The argument of \<^verbatim>\<open>berforeRequest\<close> in \<^verbatim>\<open>request\<close>:
  \<^verbatim>\<open>Object.assign({}, this.defaultOptions, reqeustConfig, {headers: {...}})\<close>.
\<close>

definition merge_config :: "RequetConstructor \<Rightarrow> RequestConfig \<Rightarrow> RequestConfig" where
  "merge_config d r =
     \<lparr>baseURL = or_else (baseURL r) (baseURL d),
      headers = Some (Some (obj_assign (case read_prop (headers d) of None \<Rightarrow> [] | Some hs \<Rightarrow> hs)
                                       (case read_prop (headers r) of None \<Rightarrow> [] | Some hs \<Rightarrow> hs))),
      timeout = or_else (timeout r) (timeout d),
      responseType = or_else (responseType r) (responseType d),
      url = url r, req_method = req_method r, params = params r, data = data r\<rparr>"

text \<open>
  \<^verbatim>\<open>request(reqeustConfig)\<close>. A rejected \<^verbatim>\<open>berforeRequest\<close> makes the \<^verbatim>\<open>await\<close> throw:
  \<^verbatim>\<open>request\<close> rejects and the transport is not touched.
\<close>

definition request ::
  "json_parser \<Rightarrow> Client \<Rightarrow> RequestConfig \<Rightarrow> xhr_caps \<Rightarrow> xhr_event
     \<Rightarrow> xhr_call list \<times> ReqeustResponse option outcome option" where
  "request JSON_parse client reqeustConfig caps ev =
     (case berforeRequest JSON_parse client
             (merge_config (defaultOptions client) reqeustConfig) of
        Rejected e \<Rightarrow> ([], Some (Rejected e))
      | Fulfilled mergeConfig \<Rightarrow>
          (case request_transport mergeConfig caps ev of
             (calls, promise) \<Rightarrow> (calls, map_option (afterRequest client) promise)))"

text \<open>
  The options of the shortcuts: \<^verbatim>\<open>ParamsRequestOptions\<close> has the properties of
  \<^verbatim>\<open>RequetConstructor\<close>, \<^verbatim>\<open>DataRequestOptions\<close> has \<^verbatim>\<open>params\<close> as well.
  \<open>paramsRequest\<close> and \<open>dataRequest\<close> are \<^verbatim>\<open>_paramsRequest\<close> and \<^verbatim>\<open>_dataRequest\<close>.
\<close>

record DataRequestOptions = RequetConstructor +
  opt_params :: "(string \<times> jsval) list option"

definition paramsRequest ::
  "json_parser \<Rightarrow> Client \<Rightarrow> Method \<Rightarrow> string \<Rightarrow> (string \<times> jsval) list option
     \<Rightarrow> RequetConstructor option \<Rightarrow> xhr_caps \<Rightarrow> xhr_event
     \<Rightarrow> xhr_call list \<times> ReqeustResponse option outcome option" where
  "paramsRequest JSON_parse client m u ps opts =
     request JSON_parse client
       \<lparr>baseURL = Option.bind opts baseURL, headers = Option.bind opts headers,
        timeout = Option.bind opts timeout, responseType = Option.bind opts responseType,
        url = u, req_method = Some m, params = ps, data = Undefined\<rparr>"

definition dataRequest ::
  "json_parser \<Rightarrow> Client \<Rightarrow> Method \<Rightarrow> string \<Rightarrow> jsval
     \<Rightarrow> DataRequestOptions option \<Rightarrow> xhr_caps \<Rightarrow> xhr_event
     \<Rightarrow> xhr_call list \<times> ReqeustResponse option outcome option" where
  "dataRequest JSON_parse client m u d opts =
     request JSON_parse client
       \<lparr>baseURL = Option.bind opts baseURL, headers = Option.bind opts headers,
        timeout = Option.bind opts timeout, responseType = Option.bind opts responseType,
        url = u, req_method = Some m, params = Option.bind opts opt_params, data = d\<rparr>"

definition Client_head where
  "Client_head JSON_parse client u ps opts = paramsRequest JSON_parse client M_HEAD u ps opts"

definition Client_options where
  "Client_options JSON_parse client u ps opts = paramsRequest JSON_parse client M_HEAD u ps opts"

definition Client_get where
  "Client_get JSON_parse client u ps opts = paramsRequest JSON_parse client M_GET u ps opts"

definition Client_delete where
  "Client_delete JSON_parse client u ps opts = paramsRequest JSON_parse client M_DELETE u ps opts"

definition Client_post where
  "Client_post JSON_parse client u d opts = dataRequest JSON_parse client M_POST u d opts"

definition Client_put where
  "Client_put JSON_parse client u d opts = dataRequest JSON_parse client M_PUT u d opts"

definition Client_patch where
  "Client_patch JSON_parse client u d opts = dataRequest JSON_parse client M_PATCH u d opts"

section \<open>Observations and example inputs\<close>

text \<open>The values of the lines of a header text whose key is \<open>k\<close>, in their order.\<close>

definition header_values :: "string \<Rightarrow> string \<Rightarrow> string list" where
  "header_values k blob =
     map line_val (filter (\<lambda>line. line_key line = k) (split_on CHR 0x0A blob))"

text \<open>The first value that is not empty, or the empty string.\<close>

definition first_nonempty :: "string list \<Rightarrow> string" where
  "first_nonempty vs = (case dropWhile (\<lambda>v. v = []) vs of [] \<Rightarrow> [] | v # _ \<Rightarrow> v)"

text \<open>The entry of \<^verbatim>\<open>parseHeaders\<close> for a key, from the values of its lines.\<close>

definition expected_header :: "string \<Rightarrow> string list \<Rightarrow> hval option" where
  "expected_header k vs =
     (if vs = [] then None
      else if k = ''set-cookie'' then Some (HArr vs)
      else if k \<in> set ignoreDuplicateOf then Some (HStr (first_nonempty vs))
      else Some (HStr (join '', '' (dropWhile (\<lambda>v. v = []) vs))))"

text \<open>Whether a call on the transport is \<^verbatim>\<open>open\<close>.\<close>

definition is_open :: "xhr_call \<Rightarrow> bool" where
  "is_open c = (case c of XhrOpen _ _ _ \<Rightarrow> True | _ \<Rightarrow> False)"

text \<open>The \<^verbatim>\<open>data\<close> of the response that a promise resolves to.\<close>

definition resolved_data :: "ReqeustResponse option outcome option \<Rightarrow> jsval option" where
  "resolved_data p = (case p of Some (Fulfilled (Some res)) \<Rightarrow> Some (res_data res) | _ \<Rightarrow> None)"

text \<open>
  \<^verbatim>\<open>new Client({baseURL: "http://h", headers: {Accept: "application/json"}})\<close>, a transport
  that offers \<^verbatim>\<open>onloadend\<close> and \<^verbatim>\<open>setRequestHeader\<close>, and its fields after it has completed
  with the status 200 and the body \<^verbatim>\<open>{"ok":true}\<close>.
\<close>

definition example_client :: "json_parser \<Rightarrow> Client" where
  "example_client JSON_parse =
     Client_new JSON_parse
       \<lparr>baseURL = Some (Some ''http://h''),
        headers = Some (Some [(''Accept'', HStr ''application/json'')]),
        timeout = None, responseType = None\<rparr>"


definition example_caps :: xhr_caps where
  "example_caps = \<lparr>has_onloadend = True, has_setRequestHeader = True\<rparr>"

definition example_xhr :: xhr_fields where
  \<open>example_xhr =
     \<lparr>xhr_status = 200, xhr_statusText = ''OK'', responseText = ''{"ok":true}'',
      response = Undefined, responseURL = ''http://h/r'', allResponseHeaders = []\<rparr>\<close>

text \<open>A request configuration with the URL alone, and a response to it.\<close>

definition example_config :: "string \<Rightarrow> RequestConfig" where
  "example_config u =
     \<lparr>baseURL = None, headers = None, timeout = None, responseType = None,
      url = u, req_method = None, params = None, data = Undefined\<rparr>"

definition example_response :: ReqeustResponse where
  "example_response =
     \<lparr>res_data = Str ''x'', status = 200, statusText = ''OK'', res_headers = [],
      config = example_config ''/r''\<rparr>"

text \<open>A response interceptor that sets the status to 201 and passes errors on.\<close>

definition set_created :: "ReqeustResponse handler" where
  "set_created =
     \<lparr>fulfilled = (\<lambda>r. Fulfilled (map_option (\<lambda>res. res\<lparr>status := 201\<rparr>) r)),
      rejected = rethrow\<rparr>"

text \<open>Request interceptors on numbers: one that passes its value on, one that returns 1.\<close>

definition pass_on :: "nat handler" where
  "pass_on = \<lparr>fulfilled = Fulfilled, rejected = noop\<rparr>"

definition give_one :: "nat handler" where
  "give_one = \<lparr>fulfilled = (\<lambda>v. Fulfilled (Some 1)), rejected = noop\<rparr>"

section \<open>URL resolution: properties\<close>

lemma strip_trailing_slashes_id:
  "b \<noteq> [] \<Longrightarrow> last b \<noteq> CHR ''/'' \<Longrightarrow> strip_trailing_slashes b = b"
  by (cases b rule: rev_cases) (simp_all add: strip_trailing_slashes_def)

lemma strip_leading_not_slash: "\<not> startsWith ''/'' (strip_leading_slashes p)"
proof (cases "strip_leading_slashes p")
  case Nil
  then show ?thesis by (simp add: startsWith_def)
next
  case (Cons c cs)
  then have "c \<noteq> CHR ''/''"
    unfolding strip_leading_slashes_def by (metis (mono_tags, lifting) dropWhile_eq_Cons_conv)
  with Cons show ?thesis by (simp add: startsWith_def)
qed

lemma isAbsoluteURL_empty: "\<not> isAbsoluteURL []"
  by (simp add: isAbsoluteURL_def startsWith_def)

text \<open>
  Claim C8, as amended. For every non-empty base \<open>b\<close> without a trailing slash and every
  non-empty path \<open>p\<close> that \<^verbatim>\<open>isAbsoluteURL\<close> does not take for absolute,
  \<^verbatim>\<open>buildFullPath(b, p)\<close> is \<open>b\<close>, one slash, and \<open>p\<close> without its leading slashes; what
  follows the slash does not start with a slash. For the empty path the result is \<open>b\<close>.
\<close>

theorem buildFullPath_relative:
  "b \<noteq> [] \<Longrightarrow> last b \<noteq> CHR ''/'' \<Longrightarrow> \<not> isAbsoluteURL p \<Longrightarrow> p \<noteq> [] \<Longrightarrow>
     buildFullPath b p = b @ ''/'' @ strip_leading_slashes p \<and>
     \<not> startsWith ''/'' (strip_leading_slashes p) \<and>
     buildFullPath b [] = b"
  by (simp add: buildFullPath_def combineURLs_def strip_trailing_slashes_id strip_leading_not_slash
        isAbsoluteURL_empty)

theorem buildFullPath_relative_witness:
  "''http://h'' \<noteq> [] \<and> last ''http://h'' \<noteq> CHR ''/'' \<and> \<not> isAbsoluteURL ''/r'' \<and> ''/r'' \<noteq> [] \<and>
   buildFullPath ''http://h'' ''/r'' = ''http://h/r''"
proof -
  have h: "\<not> isAbsoluteURL ''/r''" by code_simp
  show ?thesis
    using buildFullPath_relative [of "''http://h''" "''/r''"] h
    by (simp add: strip_leading_slashes_def)
qed

text \<open>
  Claim C8 as stated fails for the empty path, which is relative: \<^verbatim>\<open>combineURLs\<close> returns
  the base alone, without a slash.
\<close>

theorem buildFullPath_empty_path_counterexample:
  "''http://h'' \<noteq> [] \<and> last ''http://h'' \<noteq> CHR ''/'' \<and> \<not> isAbsoluteURL [] \<and>
   buildFullPath ''http://h'' [] = ''http://h'' \<and>
   buildFullPath ''http://h'' [] \<noteq> ''http://h'' @ ''/'' @ strip_leading_slashes []"
  by (simp add: buildFullPath_def combineURLs_def isAbsoluteURL_def startsWith_def
        strip_leading_slashes_def)

section \<open>Query strings: properties\<close>

text \<open>
  Claim C4, as amended. \<^verbatim>\<open>buildURL("/x", {a: [1,2], b: null, c: "x"})\<close> returns
  \<^verbatim>\<open>/x?a[]=1&a[]=2&c=x\<close>: the keys keep their order, the key with the value \<^verbatim>\<open>null\<close> is
  dropped, the array gives one pair for each element under the key with the suffix
  \<^verbatim>\<open>[]\<close>, whose brackets \<^verbatim>\<open>encode\<close> leaves as they are, and the separator is a question
  mark.
\<close>

theorem buildURL_example:
  "buildURL ''/x'' (Some [(''a'', Arr [Num 1, Num 2]), (''b'', Null), (''c'', Str ''x'')])
     = Inr ''/x?a[]=1&a[]=2&c=x''"
  by code_simp

text \<open>
  Claim C4 as stated gives the brackets percent-escaped; \<^verbatim>\<open>encode\<close> turns \<^verbatim>\<open>%5B\<close> and
  \<^verbatim>\<open>%5D\<close> back into brackets.
\<close>

theorem buildURL_example_counterexample:
  "buildURL ''/x'' (Some [(''a'', Arr [Num 1, Num 2]), (''b'', Null), (''c'', Str ''x'')])
     \<noteq> Inr ''/x?a%5B%5D=1&a%5B%5D=2&c=x''"
  by code_simp

section \<open>Safe stringification: properties\<close>

text \<open>
  Claim C5. On a string \<open>s\<close>, \<^verbatim>\<open>stringifySafely\<close> returns \<^verbatim>\<open>trim(s)\<close> when \<^verbatim>\<open>JSON.parse\<close>
  accepts \<open>s\<close>; it returns \<^verbatim>\<open>JSON.stringify(s)\<close>, the quoted string, when \<^verbatim>\<open>JSON.parse\<close>
  raises a \<^verbatim>\<open>SyntaxError\<close>; and it raises again any other error that \<^verbatim>\<open>JSON.parse\<close>
  raises.
\<close>

theorem stringifySafely_string:
  "(\<forall>v. JSON_parse (Str s) = Inr v \<longrightarrow> stringifySafely JSON_parse (Str s) = Inr (Str (trim s))) \<and>
   (\<forall>e. JSON_parse (Str s) = Inl e \<and> name e = ''SyntaxError'' \<longrightarrow>
        stringifySafely JSON_parse (Str s) = stringified (Str s) \<and>
        stringifySafely JSON_parse (Str s) = Inr (Str (json_quote s))) \<and>
   (\<forall>e. JSON_parse (Str s) = Inl e \<and> name e \<noteq> ''SyntaxError'' \<longrightarrow>
        stringifySafely JSON_parse (Str s) = Inl e)"
  by (simp add: stringifySafely_def stringified_def of_stringified_def)

theorem stringifySafely_string_witness:
  "stringifySafely (\<lambda>v. Inr (Num 1)) (Str '' 1 '') = Inr (Str ''1'') \<and>
   stringifySafely (\<lambda>v. Inl (JSError ''SyntaxError'' ''Unexpected token'')) (Str ''a b'')
     = Inr (Str [CHR 0x22, CHR ''a'', CHR '' '', CHR ''b'', CHR 0x22]) \<and>
   stringifySafely (\<lambda>v. Inl (JSError ''RangeError'' ''too deep'')) (Str ''[[1]]'')
     = Inl (JSError ''RangeError'' ''too deep'')"
proof -
  have t: "trim '' 1 '' = ''1''" by code_simp
  have q: "json_quote ''a b'' = [CHR 0x22, CHR ''a'', CHR '' '', CHR ''b'', CHR 0x22]"
    by code_simp
  show ?thesis
    using stringifySafely_string [of "\<lambda>v. Inr (Num 1)" "'' 1 ''"]
      stringifySafely_string [of "\<lambda>v. Inl (JSError ''SyntaxError'' ''Unexpected token'')" "''a b''"]
      stringifySafely_string [of "\<lambda>v. Inl (JSError ''RangeError'' ''too deep'')" "''[[1]]''"]
      t q
    by (simp add: stringified_def of_stringified_def)
qed

section \<open>Response headers: properties\<close>

lemma set_cookie_not_ignored: "''set-cookie'' \<notin> set ignoreDuplicateOf"
  by (simp add: ignoreDuplicateOf_def)

lemma parse_line_other:
  "line_key l \<noteq> k \<Longrightarrow> map_of (parse_line parsed l) k = map_of parsed k"
  by (auto simp: parse_line_def Let_def set_parsed_def update_conv' split: option.splits hval.splits)

text \<open>A key that is not inherited is read and written as an own property.\<close>

lemma get_parsed_own: "inherited k = None \<Longrightarrow> get_parsed parsed k = map_of parsed k"
  by (simp add: get_parsed_def split: option.splits)

lemma set_parsed_own: "inherited k = None \<Longrightarrow> set_parsed k v parsed = AList.update k v parsed"
  by (auto simp: set_parsed_def inherited_def)

lemma join_nonempty: "ys \<noteq> [] \<Longrightarrow> hd ys \<noteq> [] \<Longrightarrow> join sep ys \<noteq> []"
  by (induction sep ys rule: join.induct) auto

lemma join_snoc: "ys \<noteq> [] \<Longrightarrow> join sep (ys @ [v]) = join sep ys @ sep @ v"
  by (induction sep ys rule: join.induct) auto

lemma first_nonempty_Nil: "first_nonempty [] = []"
  by (simp add: first_nonempty_def)

lemma first_nonempty_Cons: "first_nonempty (v # vs) = (if v = [] then first_nonempty vs else v)"
  by (simp add: first_nonempty_def)

lemma first_nonempty_snoc:
  "first_nonempty (vs @ [v]) = (if first_nonempty vs = [] then v else first_nonempty vs)"
  by (induction vs) (auto simp: first_nonempty_def)

lemma joined_snoc:
  "join '', '' (dropWhile (\<lambda>v. v = []) (vs @ [v]))
     = (if join '', '' (dropWhile (\<lambda>v. v = []) vs) = [] then v
        else join '', '' (dropWhile (\<lambda>v. v = []) vs) @ '', '' @ v)"
proof (induction vs)
  case Nil
  then show ?case by simp
next
  case (Cons x xs)
  show ?case
  proof (cases "x = []")
    case True
    with Cons show ?thesis by simp
  next
    case False
    then have "join '', '' (x # xs) \<noteq> []" by (simp add: join_nonempty)
    with False show ?thesis by (simp add: join_snoc [of "x # xs", simplified])
  qed
qed

text \<open>One more line with the key \<open>k\<close> takes the entry for \<open>k\<close> to that of one more value.\<close>

lemma parse_line_same:
  assumes "line_key l = k" "k \<noteq> []" "inherited k = None"
    and "map_of parsed k = expected_header k vs"
  shows "map_of (parse_line parsed l) k = expected_header k (vs @ [line_val l])"
proof (cases "k = ''set-cookie''")
  case True
  with assms show ?thesis
    by (auto simp: parse_line_def Let_def get_parsed_own set_parsed_own update_conv'
          expected_header_def set_cookie_not_ignored)
next
  case nsc: False
  show ?thesis
  proof (cases "k \<in> set ignoreDuplicateOf")
    case True
    with assms nsc show ?thesis
      by (simp add: parse_line_def Let_def get_parsed_own set_parsed_own update_conv'
            expected_header_def first_nonempty_snoc first_nonempty_Nil)
  next
    case False
    with assms nsc show ?thesis
      by (simp add: parse_line_def Let_def get_parsed_own set_parsed_own update_conv'
            expected_header_def joined_snoc)
  qed
qed

lemma foldl_parse_line:
  "k \<noteq> [] \<Longrightarrow> inherited k = None \<Longrightarrow>
     map_of (foldl parse_line [] ls) k
       = expected_header k (map line_val (filter (\<lambda>line. line_key line = k) ls))"
proof (induction ls rule: rev_induct)
  case Nil
  then show ?case by (simp add: expected_header_def)
next
  case (snoc l ls)
  then show ?case
    by (cases "line_key l = k") (simp_all add: parse_line_other parse_line_same)
qed

lemma parseHeaders_foldl: "parseHeaders blob = foldl parse_line [] (split_on CHR 0x0A blob)"
  by (simp add: parseHeaders_def parse_line_def line_key_def toLowerCase_def trim_def)

lemma parseHeaders_expected:
  "k \<noteq> [] \<Longrightarrow> inherited k = None \<Longrightarrow>
     map_of (parseHeaders blob) k = expected_header k (header_values k blob)"
  by (simp add: parseHeaders_foldl foldl_parse_line header_values_def)

text \<open>
  Claim C7, as amended. For every header text: when the lines with the key \<^verbatim>\<open>set-cookie\<close>
  have the values \<open>v1\<close> and \<open>v2\<close>, the entry \<^verbatim>\<open>set-cookie\<close> is the list of the two in
  that order; the entry \<^verbatim>\<open>content-length\<close> is the first value of its lines that is not
  empty (the empty string when all are empty), so the value of the first line whenever
  that is not empty, whatever follows; and for a key that is neither \<^verbatim>\<open>set-cookie\<close> nor
  in \<^verbatim>\<open>ignoreDuplicateOf\<close>, nor one of \<^verbatim>\<open>constructor\<close> and \<^verbatim>\<open>__proto__\<close>, which the
  parsed object inherits, the entry is the values from the first non-empty one on, in
  their order, joined by a comma and a space.
\<close>

theorem parseHeaders_duplicates:
  "(header_values ''set-cookie'' blob = [v1, v2] \<longrightarrow>
      map_of (parseHeaders blob) ''set-cookie'' = Some (HArr [v1, v2])) \<and>
   (header_values ''content-length'' blob = v # vs \<longrightarrow>
      map_of (parseHeaders blob) ''content-length'' = Some (HStr (first_nonempty (v # vs))) \<and>
      (v \<noteq> [] \<longrightarrow> map_of (parseHeaders blob) ''content-length'' = Some (HStr v))) \<and>
   (k \<noteq> [] \<and> k \<noteq> ''set-cookie'' \<and> k \<notin> set ignoreDuplicateOf \<and>
    k \<noteq> ''constructor'' \<and> k \<noteq> ''__proto__'' \<and> header_values k blob = w # ws \<longrightarrow>
      map_of (parseHeaders blob) k = Some (HStr (join '', '' (dropWhile (\<lambda>v. v = []) (w # ws)))) \<and>
      (w \<noteq> [] \<longrightarrow> map_of (parseHeaders blob) k = Some (HStr (join '', '' (w # ws)))))"
proof (intro conjI impI)
  assume "header_values ''set-cookie'' blob = [v1, v2]"
  then show "map_of (parseHeaders blob) ''set-cookie'' = Some (HArr [v1, v2])"
    by (simp add: parseHeaders_expected expected_header_def inherited_def)
next
  assume h: "header_values ''content-length'' blob = v # vs"
  have i: "''content-length'' \<in> set ignoreDuplicateOf" by (simp add: ignoreDuplicateOf_def)
  from h i show c: "map_of (parseHeaders blob) ''content-length'' = Some (HStr (first_nonempty (v # vs)))"
    by (simp add: parseHeaders_expected expected_header_def inherited_def)
  assume "v \<noteq> []"
  with c show "map_of (parseHeaders blob) ''content-length'' = Some (HStr v)"
    by (simp add: first_nonempty_Cons)
next
  assume h: "k \<noteq> [] \<and> k \<noteq> ''set-cookie'' \<and> k \<notin> set ignoreDuplicateOf \<and>
    k \<noteq> ''constructor'' \<and> k \<noteq> ''__proto__'' \<and> header_values k blob = w # ws"
  then have "inherited k = None" by (simp add: inherited_def)
  with h show c: "map_of (parseHeaders blob) k = Some (HStr (join '', '' (dropWhile (\<lambda>v. v = []) (w # ws))))"
    by (simp add: parseHeaders_expected expected_header_def del: dropWhile.simps)
  assume "w \<noteq> []"
  with c show "map_of (parseHeaders blob) k = Some (HStr (join '', '' (w # ws)))"
    by simp
qed

theorem parseHeaders_duplicates_witness:
  "header_values ''set-cookie''
     (''Set-Cookie: a=1'' @ [CHR 0x0A] @ ''Set-Cookie: b=2'' @ [CHR 0x0A] @ ''Content-Length: 5''
        @ [CHR 0x0A] @ ''Content-Length: 7'' @ [CHR 0x0A] @ ''X-A: 1'' @ [CHR 0x0A] @ ''X-A: 2'')
     = [''a=1'', ''b=2''] \<and>
   map_of (parseHeaders
     (''Set-Cookie: a=1'' @ [CHR 0x0A] @ ''Set-Cookie: b=2'' @ [CHR 0x0A] @ ''Content-Length: 5''
        @ [CHR 0x0A] @ ''Content-Length: 7'' @ [CHR 0x0A] @ ''X-A: 1'' @ [CHR 0x0A] @ ''X-A: 2''))
     ''set-cookie'' = Some (HArr [''a=1'', ''b=2'']) \<and>
   map_of (parseHeaders
     (''Set-Cookie: a=1'' @ [CHR 0x0A] @ ''Set-Cookie: b=2'' @ [CHR 0x0A] @ ''Content-Length: 5''
        @ [CHR 0x0A] @ ''Content-Length: 7'' @ [CHR 0x0A] @ ''X-A: 1'' @ [CHR 0x0A] @ ''X-A: 2''))
     ''content-length'' = Some (HStr ''5'') \<and>
   map_of (parseHeaders
     (''Set-Cookie: a=1'' @ [CHR 0x0A] @ ''Set-Cookie: b=2'' @ [CHR 0x0A] @ ''Content-Length: 5''
        @ [CHR 0x0A] @ ''Content-Length: 7'' @ [CHR 0x0A] @ ''X-A: 1'' @ [CHR 0x0A] @ ''X-A: 2''))
     ''x-a'' = Some (HStr ''1, 2'')"
proof -
  let ?blob = "''Set-Cookie: a=1'' @ [CHR 0x0A] @ ''Set-Cookie: b=2'' @ [CHR 0x0A] @ ''Content-Length: 5''
        @ [CHR 0x0A] @ ''Content-Length: 7'' @ [CHR 0x0A] @ ''X-A: 1'' @ [CHR 0x0A] @ ''X-A: 2''"
  have a: "header_values ''set-cookie'' ?blob = [''a=1'', ''b=2'']" by code_simp
  have b: "header_values ''content-length'' ?blob = [''5'', ''7'']" by code_simp
  have c: "header_values ''x-a'' ?blob = [''1'', ''2'']" by code_simp
  have d: "''x-a'' \<notin> set ignoreDuplicateOf" by (simp add: ignoreDuplicateOf_def)
  show ?thesis
    using parseHeaders_duplicates [of ?blob "''a=1''" "''b=2''" "''5''" "[''7'']" "''x-a''" "''1''" "[''2'']"]
      a b c d
    by (simp add: first_nonempty_Cons)
qed

text \<open>
  Claim C7 as stated fails when the first \<^verbatim>\<open>Content-Length\<close> line has an empty value:
  \<^verbatim>\<open>parsed[key]\<close> is then the empty string, which counts as missing, and the value of the
  second line is stored.
\<close>

theorem parseHeaders_empty_first_counterexample:
  "header_values ''set-cookie''
     (''Set-Cookie: a=1'' @ [CHR 0x0A] @ ''Set-Cookie: b=2'' @ [CHR 0x0A] @ ''Content-Length:''
        @ [CHR 0x0A] @ ''Content-Length: 7'')
     = [''a=1'', ''b=2''] \<and>
   header_values ''content-length''
     (''Set-Cookie: a=1'' @ [CHR 0x0A] @ ''Set-Cookie: b=2'' @ [CHR 0x0A] @ ''Content-Length:''
        @ [CHR 0x0A] @ ''Content-Length: 7'')
     = [[], ''7''] \<and>
   map_of (parseHeaders
     (''Set-Cookie: a=1'' @ [CHR 0x0A] @ ''Set-Cookie: b=2'' @ [CHR 0x0A] @ ''Content-Length:''
        @ [CHR 0x0A] @ ''Content-Length: 7''))
     ''content-length'' = Some (HStr ''7'') \<and>
   map_of (parseHeaders
     (''Set-Cookie: a=1'' @ [CHR 0x0A] @ ''Set-Cookie: b=2'' @ [CHR 0x0A] @ ''Content-Length:''
        @ [CHR 0x0A] @ ''Content-Length: 7''))
     ''content-length'' \<noteq> Some (HStr [])"
  by code_simp

section \<open>Protocol check: properties\<close>

lemma on_event_not_protocol_error:
  "on_event c rt caps ev \<noteq> Some (Rejected (JSError ''Error'' ''Unsupported protocol''))"
  by (simp add: on_event_def split: xhr_event.splits)

lemma header_calls_not_open: "filter is_open (concat (map (header_calls d) hs)) = []"
  by (induction hs) (auto simp: header_calls_def is_open_def)

text \<open>
  When \<^verbatim>\<open>buildURL\<close> returns: a protocol that \<^verbatim>\<open>parseProtocol\<close> finds in the full URL and
  that is none of \<^verbatim>\<open>http\<close>, \<^verbatim>\<open>https\<close>, \<^verbatim>\<open>file\<close> and \<^verbatim>\<open>blob\<close> makes \<^verbatim>\<open>_request\<close> reject
  with the error \<^verbatim>\<open>Unsupported protocol\<close> without a call of \<^verbatim>\<open>open\<close>; otherwise the promise
  is not rejected with that error and \<^verbatim>\<open>open\<close> is called, once.
\<close>

lemma protocol_check_when_url_builds:
  assumes "buildURL (full_path cfg) (params cfg) = Inr u"
  shows "(parseProtocol (full_path cfg) \<noteq> [] \<and>
    parseProtocol (full_path cfg) \<notin> {''http'', ''https'', ''file'', ''blob''} \<longrightarrow>
      snd (request_transport (Some cfg) caps ev)
        = Some (Rejected (JSError ''Error'' ''Unsupported protocol'')) \<and>
      filter is_open (fst (request_transport (Some cfg) caps ev)) = []) \<and>
   (parseProtocol (full_path cfg) = [] \<or>
    parseProtocol (full_path cfg) \<in> {''http'', ''https'', ''file'', ''blob''} \<longrightarrow>
      snd (request_transport (Some cfg) caps ev)
        \<noteq> Some (Rejected (JSError ''Error'' ''Unsupported protocol'')) \<and>
      length (filter is_open (fst (request_transport (Some cfg) caps ev))) = 1)"
proof (intro conjI impI)
  assume u: "parseProtocol (full_path cfg) \<noteq> [] \<and>
    parseProtocol (full_path cfg) \<notin> {''http'', ''https'', ''file'', ''blob''}"
  with assms show "snd (request_transport (Some cfg) caps ev)
        = Some (Rejected (JSError ''Error'' ''Unsupported protocol''))"
    by (simp add: request_transport_def Let_def)
  from assms u show "filter is_open (fst (request_transport (Some cfg) caps ev)) = []"
    by (simp add: request_transport_def Let_def is_open_def split: option.splits)
next
  assume u: "parseProtocol (full_path cfg) = [] \<or>
    parseProtocol (full_path cfg) \<in> {''http'', ''https'', ''file'', ''blob''}"
  with assms show "snd (request_transport (Some cfg) caps ev)
        \<noteq> Some (Rejected (JSError ''Error'' ''Unsupported protocol''))"
    by (auto simp add: request_transport_def Let_def on_event_not_protocol_error)
  from assms u show "length (filter is_open (fst (request_transport (Some cfg) caps ev))) = 1"
    by (auto simp add: request_transport_def Let_def is_open_def header_calls_not_open
          split: option.splits)
qed


text \<open>Without parameters the same URL is rejected with \<^verbatim>\<open>Unsupported protocol\<close>.\<close>

lemma ftp_without_params:
  "request_transport (Some (example_config ''ftp://x/y'')) example_caps (Completed example_xhr)
     = ([], Some (Rejected (JSError ''Error'' ''Unsupported protocol'')))"
  by code_simp

section \<open>Interceptor chains: properties\<close>

lemma reduce_then_append:
  "reduce_then (xs @ ys) p = reduce_then ys (reduce_then xs p)"
  by (induction xs p rule: reduce_then.induct) simp_all

lemma attach_append:
  "attach i (xs @ ys) = attach i xs @ attach (i + length xs) ys"
  by (induction i xs rule: attach.induct) simp_all

lemma fst_settle: "fst (settle chain p) = map fst chain"
  by (induction chain p rule: settle.induct) (simp_all add: split_beta)

text \<open>Running the attached handlers gives the outcome of the fold.\<close>

lemma snd_settle_attach: "snd (settle (attach i hs) p) = reduce_then hs p"
  by (induction hs p arbitrary: i rule: reduce_then.induct) (simp_all add: split_beta)

lemma attach_bounds: "(j, h) \<in> set (attach i hs) \<Longrightarrow> i \<le> j \<and> j < i + length hs"
  by (induction i hs rule: attach.induct) auto

text \<open>
  Claim C2, as amended. From any state \<open>m0\<close> of an interceptor manager, register \<open>A\<close>,
  \<open>B\<close> and \<open>C\<close> with \<^verbatim>\<open>use\<close> and eject the handle of \<open>B\<close>. The slot of \<open>B\<close> is \<^verbatim>\<open>null\<close>
  and no slot has moved: the array has the same length and the handles of \<open>A\<close> and \<open>C\<close>
  still lead to \<open>A\<close> and \<open>C\<close>. A fold that starts after the eject runs the handlers that
  \<open>m0\<close> held, then \<open>A\<close>, then \<open>C\<close>, and does not run \<open>B\<close>; its outcome is that of \<open>C\<close>
  applied to the outcome of \<open>A\<close>.
\<close>

theorem eject_tombstones_slot:
  "let A = \<lparr>fulfilled = fA, rejected = rA\<rparr>; B = \<lparr>fulfilled = fB, rejected = rB\<rparr>;
       C = \<lparr>fulfilled = fC, rejected = rC\<rparr>;
       m1 = fst (use m0 fA rA); a = snd (use m0 fA rA);
       m2 = fst (use m1 fB rB); b = snd (use m1 fB rB);
       m3 = fst (use m2 fC rC); c = snd (use m2 fC rC);
       m4 = eject m3 b
   in m4 = m0 @ [Some A, None, Some C] \<and>
      a = length m0 \<and> b = a + 1 \<and> c = a + 2 \<and>
      length m4 = length m3 \<and> m4 ! a = Some A \<and> m4 ! b = None \<and> m4 ! c = Some C \<and>
      fst (settle (attach 0 m4) p) = map fst (attach 0 m0) @ [a, c] \<and>
      b \<notin> set (fst (settle (attach 0 m4) p)) \<and>
      snd (settle (attach 0 m4) p) = then_handler (then_handler (reduce_then m0 p) A) C \<and>
      reduce_then m4 p = then_handler (then_handler (reduce_then m0 p) A) C"
proof -
  have e: "eject (m0 @ [Some x, Some y, Some z]) (Suc (length m0)) = m0 @ [Some x, None, Some z]"
    for x y z :: "'a handler"
    by (simp add: eject_def list_update_append)
  have nb: "Suc (length m0) \<notin> fst ` set (attach 0 m0)"
    using attach_bounds [of "Suc (length m0)" _ 0 m0] by auto
  show ?thesis
    using nb
    by (simp add: Let_def use_def e fst_settle attach_append snd_settle_attach reduce_then_append
          nth_append)
qed

theorem eject_tombstones_slot_witness:
  "eject (fst (use (fst (use (fst (use [] (fulfilled pass_on) (rejected pass_on)))
                      (fulfilled give_one) (rejected give_one)))
                (fulfilled pass_on) (rejected pass_on))) 1
     = [Some pass_on, None, Some pass_on] \<and>
   settle (attach 0 [Some pass_on, None, Some pass_on]) (Fulfilled (Some 0))
     = ([0, 2], Fulfilled (Some 0))"
  using eject_tombstones_slot [of "fulfilled pass_on" "rejected pass_on"
      "fulfilled give_one" "rejected give_one" "fulfilled pass_on" "rejected pass_on" "[]"
      "Fulfilled (Some 0)"]
  by (simp add: Let_def use_def eject_def then_handler_def pass_on_def)

text \<open>
  Claim C2 as stated fails for a fold that is in flight. \<^verbatim>\<open>reduce\<close> has attached \<open>B\<close> to
  the promise chain when the application started; an \<^verbatim>\<open>eject\<close> after \<open>A\<close> has run and
  before \<open>B\<close> is reached empties the slot of the manager and leaves the chain as it is:
  \<open>B\<close> runs, and here its result 1 is the outcome.
\<close>

theorem eject_in_flight_counterexample:
  "let m1 = fst (use [] (fulfilled pass_on) (rejected pass_on));
       a = snd (use [] (fulfilled pass_on) (rejected pass_on));
       m2 = fst (use m1 (fulfilled give_one) (rejected give_one));
       b = snd (use m1 (fulfilled give_one) (rejected give_one));
       m3 = fst (use m2 (fulfilled pass_on) (rejected pass_on));
       c = snd (use m2 (fulfilled pass_on) (rejected pass_on));
       chain = attach 0 m3;
       before = settle (take 1 chain) (Fulfilled (Some 0));
       m4 = eject m3 b;
       after = settle (drop 1 chain) (snd before)
   in fst before = [a] \<and> m4 ! b = None \<and> fst after = [b, c] \<and> snd after = Fulfilled (Some 1)"
  by (simp add: Let_def use_def eject_def then_handler_def pass_on_def give_one_def)

text \<open>Without an empty slot the two folds of \<^verbatim>\<open>afterRequest\<close> agree.\<close>

lemma reduce_then_dup_no_tombstone:
  "None \<notin> set hs \<Longrightarrow> reduce_then_dup p0 hs p = reduce_then hs p"
  by (induction p0 hs p rule: reduce_then_dup.induct) simp_all

text \<open>
  Claim C3 fails on the code. On the response interceptors \<open>[set_created, null]\<close> and a
  fulfilled response, \<^verbatim>\<open>afterRequest\<close> of client.ts resolves to the response with the
  status 201 that the first interceptor returns; \<^verbatim>\<open>afterRequest\<close> of the second client of
  the unnamed source file goes back to its argument at the empty slot and resolves to the
  response as the transport gave it.
\<close>

theorem afterRequest_dup_differs:
  "let c = \<lparr>defaultOptions = \<lparr>baseURL = None, headers = None, timeout = None, responseType = None\<rparr>,
            interceptors_request = [],
            interceptors_response = [Some set_created, None]\<rparr>
   in afterRequest c (Fulfilled (Some example_response))
        = Fulfilled (Some (example_response\<lparr>status := 201\<rparr>)) \<and>
      afterRequest_dup c (Fulfilled (Some example_response)) = Fulfilled (Some example_response) \<and>
      afterRequest c (Fulfilled (Some example_response))
        \<noteq> afterRequest_dup c (Fulfilled (Some example_response))"
  by (simp add: Let_def afterRequest_def afterRequest_dup_def then_handler_def set_created_def
        example_response_def)

section \<open>The client: properties\<close>

text \<open>
  Claim C1 on the code. For the client with the base URL \<^verbatim>\<open>http://h\<close> and the default
  header \<^verbatim>\<open>Accept: application/json\<close>, \<^verbatim>\<open>post("/r", {name: "a"})\<close> opens the transport
  with \<^verbatim>\<open>POST\<close> and \<^verbatim>\<open>http://h/r\<close>, sets \<^verbatim>\<open>Content-Type: application/json\<close> and sends the
  JSON text of the object. When the transport completes with the status 200 and the body
  \<^verbatim>\<open>{"ok":true}\<close>, the promise resolves to a response whose \<^verbatim>\<open>data\<close> is that text, a
  string, and not the object \<^verbatim>\<open>{ok: true}\<close>: the configuration has no \<^verbatim>\<open>responseType\<close>,
  and the response interceptor of the constructor parses for \<^verbatim>\<open>'json'\<close> only.
\<close>

theorem post_end_to_end:
  \<open>fst (Client_post JSON_parse (example_client JSON_parse) ''/r'' (Obj [(''name'', Str ''a'')]) None
          example_caps (Completed example_xhr))
     = [XhrOpen ''POST'' ''http://h/r'' True,
        XhrSetRequestHeader ''Accept'' ''application/json'',
        XhrSetRequestHeader ''Content-Type'' ''application/json'',
        XhrSend (Str ''{"name":"a"}'')] \<and>
   resolved_data (snd (Client_post JSON_parse (example_client JSON_parse) ''/r''
          (Obj [(''name'', Str ''a'')]) None example_caps (Completed example_xhr)))
     = Some (Str ''{"ok":true}'') \<and>
   resolved_data (snd (Client_post JSON_parse (example_client JSON_parse) ''/r''
          (Obj [(''name'', Str ''a'')]) None example_caps (Completed example_xhr)))
     \<noteq> Some (Obj [(''ok'', Bool True)])\<close>
  by code_simp

text \<open>
  With \<^verbatim>\<open>responseType: 'json'\<close> in the default options the same call resolves to the value
  that \<^verbatim>\<open>JSON.parse\<close> returns for the body.
\<close>

lemma post_end_to_end_json:
  \<open>JSON_parse (Str ''{"ok":true}'') = Inr v \<Longrightarrow>
   resolved_data (snd (Client_post JSON_parse
       ((example_client JSON_parse)
          \<lparr>defaultOptions :=
             (defaultOptions (example_client JSON_parse))\<lparr>responseType := Some (Some ''json'')\<rparr>\<rparr>)
       ''/r'' (Obj [(''name'', Str ''a'')]) None example_caps (Completed example_xhr)))
     = Some v\<close>
  apply code_simp
  apply (simp add: resolved_data_def)
  done

text \<open>
  Claim C9 fails on the code for \<^verbatim>\<open>options\<close>: it passes \<^verbatim>\<open>'HEAD'\<close> to \<^verbatim>\<open>_paramsRequest\<close>,
  so it does what \<^verbatim>\<open>head\<close> does and opens the transport with the method \<^verbatim>\<open>HEAD\<close>.
\<close>

theorem options_issues_head:
  "Client_options JSON_parse client u ps opts caps ev
     = Client_head JSON_parse client u ps opts caps ev \<and>
   fst (Client_options JSON_parse (example_client JSON_parse) ''/r'' None None example_caps
          (Completed example_xhr))
     = [XhrOpen ''HEAD'' ''http://h/r'' True,
        XhrSetRequestHeader ''Accept'' ''application/json'',
        XhrSetRequestHeader ''Content-Type'' ''application/json'',
        XhrSend (Str ''{}'')]"
proof
  show "Client_options JSON_parse client u ps opts caps ev
     = Client_head JSON_parse client u ps opts caps ev"
    by (simp add: Client_options_def Client_head_def)
  show "fst (Client_options JSON_parse (example_client JSON_parse) ''/r'' None None example_caps
          (Completed example_xhr))
     = [XhrOpen ''HEAD'' ''http://h/r'' True,
        XhrSetRequestHeader ''Accept'' ''application/json'',
        XhrSetRequestHeader ''Content-Type'' ''application/json'',
        XhrSend (Str ''{}'')]"
    by code_simp
qed

text \<open>The six other shortcuts open the transport with their own verb.\<close>

lemma other_shortcuts_issue_own_verb:
  "hd (fst (Client_get JSON_parse (example_client JSON_parse) ''/r'' None None example_caps ev))
     = XhrOpen ''GET'' ''http://h/r'' True \<and>
   hd (fst (Client_delete JSON_parse (example_client JSON_parse) ''/r'' None None example_caps ev))
     = XhrOpen ''DELETE'' ''http://h/r'' True \<and>
   hd (fst (Client_head JSON_parse (example_client JSON_parse) ''/r'' None None example_caps ev))
     = XhrOpen ''HEAD'' ''http://h/r'' True \<and>
   hd (fst (Client_post JSON_parse (example_client JSON_parse) ''/r'' Undefined None example_caps ev))
     = XhrOpen ''POST'' ''http://h/r'' True \<and>
   hd (fst (Client_put JSON_parse (example_client JSON_parse) ''/r'' Undefined None example_caps ev))
     = XhrOpen ''PUT'' ''http://h/r'' True \<and>
   hd (fst (Client_patch JSON_parse (example_client JSON_parse) ''/r'' Undefined None example_caps ev))
     = XhrOpen ''PATCH'' ''http://h/r'' True"
  by code_simp

section \<open>The body that is sent: properties\<close>







text \<open>
  Whenever the interceptor leaves a configuration without \<^verbatim>\<open>data\<close>, \<^verbatim>\<open>JSON.stringify\<close> has
  turned the body into \<^verbatim>\<open>undefined\<close>.
\<close>

lemma undefined_body_only_from_stringify:
  assumes "beforeSend_fulfilled P (Some cfg) = Fulfilled (Some mc)" "data mc = Undefined"
  shows "truthy (data cfg) \<and> JSON_stringify (data cfg) = Inr None"
proof -
  let ?d = "if truthy (data cfg) then data cfg else Obj []"
  from assms obtain hs1 hs2 where tr: "transformRequest P ?d hs1 = Inr (Undefined, hs2)"
    by (auto simp: beforeSend_fulfilled_def Let_def split: sum.splits prod.splits)
  have t: "truthy ?d" by simp
  then have nu: "?d \<noteq> Undefined" by auto
  from tr t nu have "stringifySafely P ?d = Inr Undefined"
    by (auto simp: transformRequest_def Let_def split: if_splits sum.splits)
  then have "JSON_stringify ?d = Inr None"
    by (auto simp: stringifySafely_def stringified_def of_stringified_def
          split: jsval.splits sum.splits if_splits option.splits)
  then show ?thesis by (auto split: if_splits)
qed


end
